theory Spec2Isabelle
  imports Complex_Main
begin

section \<open>JavaScript numbers\<close>

text \<open>
  A JavaScript number is a finite value, one of the two infinities, or NaN. Finite values
  are modelled as rationals, so \<open>x / 1e3\<close> is the exact quotient (the rounding of the
  IEEE double division is not modelled), and \<open>-0\<close> and \<open>0\<close> are one value (both
  satisfy \<open>=== 0\<close>).
\<close>

datatype number = Fin rat | Infinity | NegInfinity | NaN

text \<open>\<open>x > c\<close> for a finite literal \<open>c\<close>: every comparison with NaN is false.\<close>

fun js_gt :: "number \<Rightarrow> rat \<Rightarrow> bool" where
  "js_gt (Fin a) c = (a > c)"
| "js_gt Infinity c = True"
| "js_gt NegInfinity c = False"
| "js_gt NaN c = False"

text \<open>\<open>x / c\<close> for a finite literal \<open>c > 0\<close>.\<close>

fun js_div :: "number \<Rightarrow> rat \<Rightarrow> number" where
  "js_div (Fin a) c = Fin (a / c)"
| "js_div Infinity c = Infinity"
| "js_div NegInfinity c = NegInfinity"
| "js_div NaN c = NaN"

text \<open>\<open>Number(v)\<close> for \<open>v: number | undefined\<close>: \<open>Number(undefined)\<close> is NaN.\<close>

fun to_Number :: "number option \<Rightarrow> number" where
  "to_Number None = NaN"
| "to_Number (Some n) = n"

section \<open>Settings\<close>

definition DEFAULT_STEP_WAIT_SECONDS :: number where
  "DEFAULT_STEP_WAIT_SECONDS = Fin 5"

definition DEFAULT_ACTION_WAIT_SECONDS :: number where
  "DEFAULT_ACTION_WAIT_SECONDS = Fin (1 / 2)"

datatype ResponseTiming = timing_page | timing_network | timing_step | timing_stepWithThinkTime

datatype ConsoleMethod = console_log | console_info | console_debug | console_warn | console_error

text \<open>The interface \<open>TestSettings\<close>: every property is optional, \<open>None\<close> is \<open>undefined\<close>.\<close>

record TestSettings =
  duration :: "number option"
  loopCount :: "number option"
  actionDelay :: "number option"
  stepDelay :: "number option"
  userAgent :: "string option"
  device :: "string option"
  waitTimeout :: "number option"
  clearCookies :: "bool option"
  clearCache :: "bool option"
  disableCache :: "bool option"
  name :: "string option"
  description :: "string option"
  screenshotOnFailure :: "bool option"
  DOMSnapshotOnFailure :: "bool option"
  responseTimeMeasurement :: "ResponseTiming option"
  consoleFilter :: "ConsoleMethod list option"
  ignoreHTTPSErrors :: "bool option"

text \<open>
  \<open>typeof v === 'number' && v > c\<close> on a property of type \<open>number | undefined\<close>.
\<close>

fun is_number_gt :: "number option \<Rightarrow> rat \<Rightarrow> bool" where
  "is_number_gt None c = False"
| "is_number_gt (Some n) c = js_gt n c"

text \<open>
  \<open>normalizeSettings\<close> mutates its argument in three statements, one per delay setting,
  and returns it; the model threads the object through the three statements in order.
  The third statement tests \<open>stepDelay\<close> and, in its zero branch, assigns
  \<open>actionDelay\<close>, as the source does.
\<close>

definition normalize_waitTimeout :: "TestSettings \<Rightarrow> TestSettings" where
  "normalize_waitTimeout settings =
     (if is_number_gt (waitTimeout settings) 1000
      then settings\<lparr>waitTimeout := map_option (\<lambda>n. js_div n 1000) (waitTimeout settings)\<rparr>
      else if to_Number (waitTimeout settings) = Fin 0
      then settings\<lparr>waitTimeout := Some (Fin 30)\<rparr>
      else settings)"

definition normalize_actionDelay :: "TestSettings \<Rightarrow> TestSettings" where
  "normalize_actionDelay settings =
     (if is_number_gt (actionDelay settings) 60
      then settings\<lparr>actionDelay := map_option (\<lambda>n. js_div n 1000) (actionDelay settings)\<rparr>
      else if to_Number (actionDelay settings) = Fin 0
      then settings\<lparr>actionDelay := Some DEFAULT_ACTION_WAIT_SECONDS\<rparr>
      else settings)"

definition normalize_stepDelay :: "TestSettings \<Rightarrow> TestSettings" where
  "normalize_stepDelay settings =
     (if is_number_gt (stepDelay settings) 60
      then settings\<lparr>stepDelay := map_option (\<lambda>n. js_div n 1000) (stepDelay settings)\<rparr>
      else if to_Number (stepDelay settings) = Fin 0
      then settings\<lparr>actionDelay := Some DEFAULT_STEP_WAIT_SECONDS\<rparr>
      else settings)"

definition normalizeSettings :: "TestSettings \<Rightarrow> TestSettings" where
  "normalizeSettings settings =
     normalize_stepDelay (normalize_actionDelay (normalize_waitTimeout settings))"

text \<open>The settings object in which no property is set.\<close>

definition no_settings :: TestSettings where
  "no_settings = \<lparr>duration = None, loopCount = None, actionDelay = None, stepDelay = None,
     userAgent = None, device = None, waitTimeout = None, clearCookies = None,
     clearCache = None, disableCache = None, name = None, description = None,
     screenshotOnFailure = None, DOMSnapshotOnFailure = None,
     responseTimeMeasurement = None, consoleFilter = None, ignoreHTTPSErrors = None\<rparr>"

section \<open>Errors\<close>

text \<open>
  The values the modelled code throws: a plain \<open>Error\<close> with its message, a
  \<open>TypeError\<close> raised by the engine, or a \<open>DocumentedError\<close>. The class
  \<open>DocumentedError\<close> is imported from \<open>../utils/DocumentedError\<close>; a DocumentedError is
  represented by the four arguments its constructor receives (message, documentation
  body, call context, original error) and by its \<open>stack\<close> property: \<open>None\<close> is
  the stack captured by the engine when the object was built, \<open>Some s\<close> a stack assigned
  by the code.
\<close>

datatype js_error = Error string | TypeError string | Documented documented_error
and documented_error =
  DocumentedError (message: string) (errorDoc: string) (callContext: string)
    (originalError: js_error) (stack: "string option")


text \<open>\<open>newError.stack = s\<close>\<close>

fun set_stack :: "documented_error \<Rightarrow> string \<Rightarrow> documented_error" where
  "set_stack (DocumentedError m b c e st) s = DocumentedError m b c e (Some s)"


text \<open>
  \<open>toLowerCase\<close> and \<open>toUpperCase\<close> on the letters A to Z; other characters are
  left as they are.
\<close>

definition toLowerCase :: "string \<Rightarrow> string" where
  "toLowerCase s = map (\<lambda>c. case map_of (zip ''ABCDEFGHIJKLMNOPQRSTUVWXYZ''
       ''abcdefghijklmnopqrstuvwxyz'') c of Some d \<Rightarrow> d | None \<Rightarrow> c) s"

definition toUpperCase :: "string \<Rightarrow> string" where
  "toUpperCase s = map (\<lambda>c. case map_of (zip ''abcdefghijklmnopqrstuvwxyz''
       ''ABCDEFGHIJKLMNOPQRSTUVWXYZ'') c of Some d \<Rightarrow> d | None \<Rightarrow> c) s"

section \<open>The browser-automation handle\<close>

text \<open>
  The wrapped library's element handle is an external collaborator. A call on it is a
  function of the browser state \<open>'w\<close>: an action (\<open>click\<close>, \<open>focus\<close>, \<open>type\<close>,
  \<open>press\<close>, \<open>screenshot\<close>, \<open>evaluate\<close>) returns the outcome (\<open>Inl\<close> a rejection,
  \<open>Inr\<close> the resolved value) and the next state; a query (\<open>getProperty\<close>,
  \<open>jsonValue\<close>, \<open>boundingBox\<close>) returns an outcome and leaves the state as it is.
\<close>

type_synonym ('a, 'w) action = "'w \<Rightarrow> (js_error + 'a) \<times> 'w"

type_synonym ('a, 'w) query = "'w \<Rightarrow> js_error + 'a"

record ClickOptions =
  click_delay :: "number option"
  click_button :: "string option"
  clickCount :: "number option"

record ScreenshotOptions =
  screenshot_type :: "string option"
  fullPage :: "bool option"
  omitBackground :: "bool option"

record BoundingBox =
  box_x :: number
  box_y :: number
  box_width :: number
  box_height :: number

record 'w JSHandle =
  jsonValue :: "(string option, 'w) query"

text \<open>The page functions this class passes to \<open>executionContext().evaluate\<close>.\<close>

datatype PageFunction = SetSelectedIndexMinusOne | SetValueEmpty | BlurNode

record 'w PElementHandle =
  p_click :: "ClickOptions option \<Rightarrow> (unit, 'w) action"
  p_focus :: "(unit, 'w) action"
  p_type :: "string \<Rightarrow> (unit, 'w) action"
  p_press :: "string \<Rightarrow> (unit, 'w) action"
  p_screenshot :: "string \<Rightarrow> ScreenshotOptions option \<Rightarrow> (unit, 'w) action"
  p_evaluate :: "PageFunction \<Rightarrow> (unit, 'w) action"
  p_getProperty :: "string \<Rightarrow> ('w JSHandle, 'w) query"
  p_boundingBox :: "(BoundingBox option, 'w) query"
  p_isElement :: bool

text \<open>\<open>asElement()\<close> returns the handle itself when it refers to an element, else null.\<close>

definition asElement :: "'w PElementHandle \<Rightarrow> 'w PElementHandle option" where
  "asElement el = (if p_isElement el then Some el else None)"

text \<open>
  The module function \<open>getProperty\<close>. The call \<open>handle.dispose()\<close> is not awaited and
  its result is dropped.
\<close>

definition getProperty :: "'w PElementHandle option \<Rightarrow> string \<Rightarrow> (string option, 'w) query" where
  "getProperty el prop w =
     (case el of
        None \<Rightarrow> Inr None
      | Some pel \<Rightarrow>
          (case p_getProperty pel prop w of
             Inl e \<Rightarrow> Inl e
           | Inr handle \<Rightarrow>
               (case jsonValue handle w of
                  Inl e \<Rightarrow> Inl e
                | Inr v \<Rightarrow> Inr v)))"

section \<open>ElementHandle\<close>

type_synonym 'w ScreenshotSaver = "(string \<Rightarrow> (bool, 'w) action) \<Rightarrow> (unit, 'w) action"

record 'w ElementHandle =
  element :: "'w PElementHandle"
  errorString :: string
  screenshotSaver :: "'w ScreenshotSaver option"

definition toErrorString :: "'w ElementHandle \<Rightarrow> string" where
  "toErrorString this = errorString this"

text \<open>
  An error interpreter receives the caught error, the target, the method name, the call
  context and the call's arguments, and builds the error to throw instead.
\<close>

type_synonym ('w, 'args) ErrorInterpreter =
  "js_error \<Rightarrow> 'w ElementHandle \<Rightarrow> string \<Rightarrow> string \<Rightarrow> 'args \<Rightarrow> documented_error"

text \<open>
  The decorator \<open>wrapDescriptiveError\<close>. \<open>calltimeStack\<close> is the stack captured when the
  decorated method is called. In the \<open>catch\<close> block \<open>errorInterpreters[0]\<close> is called:
  when the decorator was given no interpreter it is \<open>undefined\<close>, and calling it raises
  a TypeError, which leaves the method in place of the caught error.
\<close>

definition wrapDescriptiveError ::
  "('w, 'args) ErrorInterpreter list \<Rightarrow> string \<Rightarrow>
   ('w ElementHandle \<Rightarrow> 'args \<Rightarrow> ('a, 'w) action) \<Rightarrow>
   string \<Rightarrow> 'w ElementHandle \<Rightarrow> 'args \<Rightarrow> ('a, 'w) action" where
  "wrapDescriptiveError errorInterpreters propertyKey originalFn calltimeStack this args w =
     (case originalFn this args w of
        (Inr v, w') \<Rightarrow> (Inr v, w')
      | (Inl e, w') \<Rightarrow>
          (let callCtx = toErrorString this @ ''.'' @ propertyKey in
           case errorInterpreters of
             [] \<Rightarrow> (Inl (TypeError ''errorInterpreters[0] is not a function''), w')
           | interpreter # _ \<Rightarrow>
               (let newError = interpreter e this propertyKey callCtx args in
                (Inl (Documented (set_stack newError calltimeStack)), w'))))"



subsection \<open>The locator methods\<close>

definition find_eh :: "'c \<Rightarrow> 'n option \<Rightarrow> 'w ElementHandle \<Rightarrow> ('w ElementHandle option, 'w) action" where
  "find_eh context node this w = (Inr (Some this), w)"

definition findMany :: "'c \<Rightarrow> 'n option \<Rightarrow> 'w ElementHandle \<Rightarrow> ('w ElementHandle list, 'w) action" where
  "findMany context node this w = (Inr [this], w)"

subsection \<open>Queries\<close>

definition tagName :: "'w ElementHandle \<Rightarrow> (string option, 'w) query" where
  "tagName this = getProperty (Some (element this)) ''tagName''"

definition isSelectable :: "'w ElementHandle \<Rightarrow> (bool, 'w) query" where
  "isSelectable this w =
     (case tagName this w of
        Inl e \<Rightarrow> Inl e
      | Inr None \<Rightarrow> Inr False
      | Inr (Some tag) \<Rightarrow>
          if tag = ''OPTION'' then Inr True
          else if tag = ''INPUT''
          then (let type = toLowerCase tag
                in Inr (type = ''checkbox'' \<or> type = ''radio''))
          else Inr False)"

text \<open>
  A call of an async function that is not awaited yields a promise object. A promise is
  an object, so \<open>!p\<close> is false whatever the promise settles to.
\<close>

datatype 'a promise = Promise "js_error + 'a"

fun js_not :: "'a promise \<Rightarrow> bool" where
  "js_not (Promise r) = False"

text \<open>
  \<open>isSelected\<close>: the guard is \<open>await !this.isSelectable()\<close>, the negation of the
  promise; \<open>value\<close> is the promise returned by \<open>getProperty\<close>, and the result is
  \<open>!!value\<close>. Only \<open>this.tagName()\<close> is awaited.
\<close>

definition isSelected :: "'w ElementHandle \<Rightarrow> (bool, 'w) query" where
  "isSelected this w =
     (if js_not (Promise (isSelectable this w))
      then Inl (Error ''Element is not selectable'')
      else
        (case tagName this w of
           Inl e \<Rightarrow> Inl e
         | Inr tag \<Rightarrow>
             (let type = (case tag of
                            None \<Rightarrow> None
                          | Some t \<Rightarrow> if t = [] then Some [] else Some (toUpperCase t));
                  propertyName = (if Some ''CHECKBOX'' = type \<or> Some ''RADIO'' = type
                                  then ''checked'' else ''selected'');
                  value = Promise (getProperty (Some (element this)) propertyName w)
              in Inr (\<not> js_not value))))"

definition isDisplayed :: "'w ElementHandle \<Rightarrow> (bool, 'w) query" where
  "isDisplayed this w =
     (case p_boundingBox (element this) w of
        Inl e \<Rightarrow> Inl e
      | Inr box \<Rightarrow> Inr (box \<noteq> None))"

record Size =
  width :: number
  height :: number

record Location =
  loc_x :: number
  loc_y :: number

definition size_eh :: "'w ElementHandle \<Rightarrow> (Size, 'w) query" where
  "size_eh this w =
     (case p_boundingBox (element this) w of
        Inl e \<Rightarrow> Inl e
      | Inr None \<Rightarrow> Inr \<lparr>width = Fin 0, height = Fin 0\<rparr>
      | Inr (Some box) \<Rightarrow> Inr \<lparr>width = box_width box, height = box_height box\<rparr>)"

definition location :: "'w ElementHandle \<Rightarrow> (Location, 'w) query" where
  "location this w =
     (case p_boundingBox (element this) w of
        Inl e \<Rightarrow> Inl e
      | Inr None \<Rightarrow> Inr \<lparr>loc_x = Fin 0, loc_y = Fin 0\<rparr>
      | Inr (Some box) \<Rightarrow> Inr \<lparr>loc_x = box_x box, loc_y = box_y box\<rparr>)"

subsection \<open>The decorated methods\<close>


definition clear_body :: "'w ElementHandle \<Rightarrow> unit \<Rightarrow> (unit, 'w) action" where
  "clear_body this args w =
     (case tagName this w of
        Inl e \<Rightarrow> (Inl e, w)
      | Inr tag \<Rightarrow>
          if tag = Some ''SELECT'' then p_evaluate (element this) SetSelectedIndexMinusOne w
          else if tag = Some ''INPUT'' then p_evaluate (element this) SetValueEmpty w
          else (Inr (), w))"

definition clear :: "string \<Rightarrow> 'w ElementHandle \<Rightarrow> unit \<Rightarrow> (unit, 'w) action" where
  "clear = wrapDescriptiveError [] ''clear'' clear_body"

definition focus :: "string \<Rightarrow> 'w ElementHandle \<Rightarrow> unit \<Rightarrow> (unit, 'w) action" where
  "focus = wrapDescriptiveError [] ''focus'' (\<lambda>this args. p_focus (element this))"

definition blur :: "string \<Rightarrow> 'w ElementHandle \<Rightarrow> unit \<Rightarrow> (unit, 'w) action" where
  "blur = wrapDescriptiveError [] ''blur'' (\<lambda>this args. p_evaluate (element this) BlurNode)"

text \<open>
  \<open>sendKeys\<close>: the enumeration \<open>Key\<close> is imported from \<open>./Enums\<close>; the list of its
  values, \<open>Object.values(Key)\<close>, is a parameter. The loop stops at the first key whose
  \<open>press\<close> or \<open>type\<close> rejects.
\<close>

fun sendKeys_loop :: "string list \<Rightarrow> 'w PElementHandle \<Rightarrow> string list \<Rightarrow> (unit, 'w) action" where
  "sendKeys_loop Key_values handle [] w = (Inr (), w)"
| "sendKeys_loop Key_values handle (key # keys) w =
     (case (if key \<in> set Key_values then p_press handle key w else p_type handle key w) of
        (Inl e, w') \<Rightarrow> (Inl e, w')
      | (Inr u, w') \<Rightarrow> sendKeys_loop Key_values handle keys w')"

definition sendKeys_body :: "string list \<Rightarrow> 'w ElementHandle \<Rightarrow> string list \<Rightarrow> (unit, 'w) action" where
  "sendKeys_body Key_values this keys w =
     (case asElement (element this) of
        None \<Rightarrow> (Inr (), w)
      | Some handle \<Rightarrow> sendKeys_loop Key_values handle keys w)"

definition sendKeys ::
  "string list \<Rightarrow> string \<Rightarrow> 'w ElementHandle \<Rightarrow> string list \<Rightarrow> (unit, 'w) action" where
  "sendKeys Key_values = wrapDescriptiveError [] ''sendKeys'' (sendKeys_body Key_values)"

definition type_body :: "'w ElementHandle \<Rightarrow> string \<Rightarrow> (unit, 'w) action" where
  "type_body this text w =
     (case asElement (element this) of
        None \<Rightarrow> (Inr (), w)
      | Some handle \<Rightarrow> p_type handle text w)"

definition type_eh :: "string \<Rightarrow> 'w ElementHandle \<Rightarrow> string \<Rightarrow> (unit, 'w) action" where
  "type_eh = wrapDescriptiveError [] ''type'' type_body"

text \<open>
  \<open>takeScreenshot\<close>: the saver is called with a callback that takes the path. The
  object \<open>{ path, ...options }\<close> is passed to the handle as the path and the options.
  Reading \<open>saveScreenshot\<close> from an unset \<open>screenshotSaver\<close> raises a TypeError.
\<close>

definition takeScreenshot_body ::
  "'w ElementHandle \<Rightarrow> ScreenshotOptions option \<Rightarrow> (unit, 'w) action" where
  "takeScreenshot_body this options w =
     (case screenshotSaver this of
        None \<Rightarrow> (Inl (TypeError ''Cannot read property saveScreenshot of undefined''), w)
      | Some saveScreenshot \<Rightarrow>
          saveScreenshot
            (\<lambda>path w1.
               case asElement (element this) of
                 None \<Rightarrow> (Inr False, w1)
               | Some handle \<Rightarrow>
                   (case p_screenshot handle path options w1 of
                      (Inl e, w2) \<Rightarrow> (Inl e, w2)
                    | (Inr u, w2) \<Rightarrow> (Inr True, w2)))
            w)"

definition takeScreenshot ::
  "string \<Rightarrow> 'w ElementHandle \<Rightarrow> ScreenshotOptions option \<Rightarrow> (unit, 'w) action" where
  "takeScreenshot = wrapDescriptiveError [] ''takeScreenshot'' takeScreenshot_body"

subsection \<open>Example handles\<close>

text \<open>
  A checkbox input whose node has been removed from the document: actions reject with
  the library's detached-node error, properties can still be read, and there is no
  bounding box. The browser state counts the commands performed.
\<close>

definition detached_error :: js_error where
  "detached_error = Error ''Node is detached from document''"

definition detached_checkbox :: "nat PElementHandle" where
  "detached_checkbox =
     \<lparr>p_click = (\<lambda>options w. (Inl detached_error, Suc w)),
      p_focus = (\<lambda>w. (Inl detached_error, Suc w)),
      p_type = (\<lambda>text w. (Inl detached_error, Suc w)),
      p_press = (\<lambda>key w. (Inl detached_error, Suc w)),
      p_screenshot = (\<lambda>path options w. (Inl detached_error, Suc w)),
      p_evaluate = (\<lambda>fn w. (Inr (), Suc w)),
      p_getProperty = (\<lambda>prop w. Inr \<lparr>jsonValue = (\<lambda>w.
         Inr (if prop = ''tagName'' then Some ''INPUT''
              else if prop = ''type'' then Some ''checkbox''
              else if prop = ''checked'' then Some ''true'' else None))\<rparr>),
      p_boundingBox = (\<lambda>w. Inr None),
      p_isElement = True\<rparr>"

definition detached_handle :: "nat ElementHandle" where
  "detached_handle =
     \<lparr>element = detached_checkbox, errorString = ''<element-handle>'',
      screenshotSaver = None\<rparr>"

text \<open>A handle whose page has been closed: every call on it rejects.\<close>

definition closed_error :: js_error where
  "closed_error = Error ''Protocol error (Runtime.callFunctionOn): Target closed.''"

definition closed_element :: "nat PElementHandle" where
  "closed_element =
     \<lparr>p_click = (\<lambda>options w. (Inl closed_error, w)),
      p_focus = (\<lambda>w. (Inl closed_error, w)),
      p_type = (\<lambda>text w. (Inl closed_error, w)),
      p_press = (\<lambda>key w. (Inl closed_error, w)),
      p_screenshot = (\<lambda>path options w. (Inl closed_error, w)),
      p_evaluate = (\<lambda>fn w. (Inl closed_error, w)),
      p_getProperty = (\<lambda>prop w. Inl closed_error),
      p_boundingBox = (\<lambda>w. Inl closed_error),
      p_isElement = True\<rparr>"

definition closed_handle :: "nat ElementHandle" where
  "closed_handle =
     \<lparr>element = closed_element, errorString = ''<element-handle>'',
      screenshotSaver = None\<rparr>"


section \<open>The documentation parser\<close>

subsection \<open>The reflection tree\<close>

record CommentTag =
  tag :: string
  tag_text :: string

record CommentObject =
  shortText :: "string option"
  comment_text :: "string option"
  tags :: "CommentTag list option"

record TypeObject =
  type_kind :: string
  type_name :: "string option"

record ReflectionFlags =
  isOptional :: "bool option"
  isExported :: "bool option"
  isPublic :: "bool option"

record Parameter =
  param_name :: string
  param_type :: TypeObject
  param_flags :: ReflectionFlags
  defaultValue :: "string option"
  param_comment :: "CommentObject option"
  originalName :: "string option"

record CallSignatureType =
  sig_kindString :: string
  sig_name :: string
  sig_flags :: ReflectionFlags
  parameters :: "Parameter list option"
  sig_comment :: "CommentObject option"

text \<open>
  \<open>NodeLike\<close>, with the two properties that \<open>NodeWithCallSignature\<close> and
  \<open>MethodReflection\<close> add to it. An absent property is \<open>None\<close>. The values of this type
  are the finite trees.
\<close>

datatype NodeLike =
  NodeLike (node_name: string) (kindString: "string option")
    (children: "NodeLike list option") (comment: "CommentObject option")
    (signatures: "CallSignatureType list option")
    (implementationOf: "CallSignatureType option")

subsection \<open>Documents and the parser's state\<close>

text \<open>
  The class \<open>APIDocument\<close> is imported from \<open>./APIDocument\<close>. A document is represented
  by the sequence of the method calls it has received, so a document is mutated exactly
  when its sequence grows. The object built by \<open>visitClassComment\<close> is a finite map from
  property names to strings.
\<close>

record SignatureParam =
  sp_name :: string
  sp_type :: string
  sp_isOptional :: bool
  sp_isReference :: bool
  sp_defaultValue :: "string option"
  sp_desc :: string

datatype doc_call =
  Section string
| Comment string
| Frontmatter "string \<rightharpoonup> string"
| CallSignature "SignatureParam list"

type_synonym APIDocument = "doc_call list"

text \<open>
  Documents are objects shared by reference between the map \<open>documents\<close> and the
  \<open>doc\<close> arguments: a reference is an address, and the store maps every address to
  the document it holds. \<open>console\<close> collects the lines written by \<open>console.log\<close>.
\<close>

type_synonym doc_ref = nat

record parser_state =
  store :: "doc_ref \<Rightarrow> APIDocument"
  console :: "string list"

record ParseIndex =
  indexMap :: "string \<rightharpoonup> string"
  indexExports :: "string \<rightharpoonup> string"

text \<open>The fields of a \<open>Parser\<close> that the walk reads, as they are once \<open>parse\<close> has set them.\<close>

record Parser =
  documents :: "string \<rightharpoonup> doc_ref"
  index :: ParseIndex
  referenceMap :: "string \<rightharpoonup> string"

text \<open>
  The functions imported from \<open>./utils/predicates\<close>, \<open>./utils/refs\<close>,
  \<open>./utils/typeHandling\<close> and \<open>./utils/out\<close> are parameters.
\<close>

record externals =
  isClassReflection :: "NodeLike \<Rightarrow> bool"
  isMethodReflection :: "NodeLike \<Rightarrow> bool"
  isNodeOpaque :: "NodeLike \<Rightarrow> bool"
  isNodeInternal :: "NodeLike \<Rightarrow> bool"
  isCallableNode :: "NodeLike \<Rightarrow> bool"
  fixReferences :: "string \<Rightarrow> string"
  typeToString :: "TypeObject \<Rightarrow> string"
  info :: "string \<Rightarrow> string"

definition console_log :: "string \<Rightarrow> parser_state \<Rightarrow> parser_state" where
  "console_log line st = st\<lparr>console := console st @ [line]\<rparr>"

text \<open>A method call on the document at \<open>doc\<close>.\<close>

definition doc_call :: "doc_ref \<Rightarrow> doc_call \<Rightarrow> parser_state \<Rightarrow> parser_state" where
  "doc_call doc c st = st\<lparr>store := (store st)(doc := store st doc @ [c])\<rparr>"

text \<open>\<open>String.prototype.trim\<close> on the ASCII white space characters.\<close>

definition is_space :: "char \<Rightarrow> bool" where
  "is_space c = (c \<in> set [CHR 0x20, CHR 0x09, CHR 0x0A, CHR 0x0B, CHR 0x0C, CHR 0x0D])"

definition trim :: "string \<Rightarrow> string" where
  "trim s = rev (dropWhile is_space (rev (dropWhile is_space s)))"

subsection \<open>The visitors\<close>

text \<open>
  \<open>writeComment\<close>: a text is written when it is truthy, that is present and not empty.
\<close>

definition comment_if_truthy :: "externals \<Rightarrow> doc_ref \<Rightarrow> string option \<Rightarrow> parser_state \<Rightarrow> parser_state" where
  "comment_if_truthy ext doc txt st =
     (case txt of
        None \<Rightarrow> st
      | Some t \<Rightarrow> if t \<noteq> [] then doc_call doc (Comment (fixReferences ext t)) st else st)"

definition writeComment :: "externals \<Rightarrow> doc_ref \<Rightarrow> CommentObject option \<Rightarrow> parser_state \<Rightarrow> parser_state" where
  "writeComment ext doc cmt st =
     (let short = (case cmt of None \<Rightarrow> None | Some c \<Rightarrow> shortText c);
          long = (case cmt of None \<Rightarrow> None | Some c \<Rightarrow> comment_text c)
      in comment_if_truthy ext doc long (comment_if_truthy ext doc short st))"

text \<open>
  \<open>visitClassComment\<close>: \<open>meta[tag.tag] = ...\<close> sets a property, except for the name
  \<open>__proto__\<close>, where the assignment of a string changes nothing.
\<close>

definition set_property :: "string \<Rightarrow> string \<Rightarrow> (string \<rightharpoonup> string) \<Rightarrow> (string \<rightharpoonup> string)" where
  "set_property k v obj = (if k = ''__proto__'' then obj else obj(k \<mapsto> v))"

definition add_tag :: "CommentTag \<Rightarrow> (string \<rightharpoonup> string) \<Rightarrow> (string \<rightharpoonup> string)" where
  "add_tag t meta =
     (let meta1 = set_property (tag t) (trim (tag_text t)) meta
      in if tag t = ''class'' then set_property ''title'' (trim (tag_text t)) meta1 else meta1)"

definition visitClassComment :: "CommentObject \<Rightarrow> doc_ref \<Rightarrow> parser_state \<Rightarrow> parser_state" where
  "visitClassComment cmt doc st =
     (case tags cmt of
        None \<Rightarrow> st
      | Some ts \<Rightarrow> doc_call doc (Frontmatter (fold add_tag ts Map.empty)) st)"

type_synonym visitor =
  "externals \<Rightarrow> NodeLike \<Rightarrow> doc_ref option \<Rightarrow> (unit, parser_state) action"

definition visitClass :: visitor where
  "visitClass ext node doc st =
     (let st1 = console_log (info ext (''visit Class: '' @ node_name node)) st in
      case doc of
        None \<Rightarrow> (Inr (), st1)
      | Some d \<Rightarrow>
          (let st2 = doc_call d (Section (node_name node)) st1;
               st3 = writeComment ext d (comment node) st2;
               st4 = (case comment node of
                        None \<Rightarrow> st3
                      | Some c \<Rightarrow> visitClassComment c d st3)
           in (Inr (), st4)))"

definition visitAlias :: visitor where
  "visitAlias ext node doc st = (Inr (), st)"

definition visitExternalModule :: visitor where
  "visitExternalModule ext node doc st = (Inr (), st)"

definition visitObjectLiteral :: visitor where
  "visitObjectLiteral ext node doc st = (Inr (), st)"

definition visitProperty :: visitor where
  "visitProperty ext node doc st = (Inr (), st)"

definition visitVariable :: visitor where
  "visitVariable ext node doc st = (Inr (), st)"

definition visitFunction :: visitor where
  "visitFunction ext node doc st =
     (Inr (), console_log (info ext (''Function '' @ node_name node)) st)"

text \<open>
  \<open>visitCallSignature\<close>: the description joins the truthy ones of \<open>shortText\<close> and
  \<open>text\<close>, each passed through \<open>fixReferences\<close>, with a newline.
\<close>

definition join_newline :: "string list \<Rightarrow> string" where
  "join_newline xs =
     (case xs of [] \<Rightarrow> [] | y # ys \<Rightarrow> foldl (\<lambda>acc z. acc @ [CHR ''\<newline>''] @ z) y ys)"

definition truthy_texts :: "string option list \<Rightarrow> string list" where
  "truthy_texts xs = concat (map (\<lambda>x. case x of None \<Rightarrow> [] | Some t \<Rightarrow> if t \<noteq> [] then [t] else []) xs)"

definition signature_param :: "externals \<Rightarrow> Parameter \<Rightarrow> SignatureParam" where
  "signature_param ext param =
     (let short = (case param_comment param of None \<Rightarrow> None | Some c \<Rightarrow> shortText c);
          long = (case param_comment param of None \<Rightarrow> None | Some c \<Rightarrow> comment_text c)
      in \<lparr>sp_name = param_name param,
          sp_type = typeToString ext (param_type param),
          sp_isOptional = (case isOptional (param_flags param) of None \<Rightarrow> False | Some b \<Rightarrow> b),
          sp_isReference = (type_kind (param_type param) = ''reference''),
          sp_defaultValue = defaultValue param,
          sp_desc = join_newline (map (fixReferences ext) (truthy_texts [short, long]))\<rparr>)"

definition visitCallSignature :: "externals \<Rightarrow> CallSignatureType \<Rightarrow> doc_ref \<Rightarrow> parser_state \<Rightarrow> parser_state" where
  "visitCallSignature ext sg doc st =
     (case parameters sg of
        None \<Rightarrow> st
      | Some ps \<Rightarrow> doc_call doc (CallSignature (map (signature_param ext) ps)) st)"

text \<open>
  \<open>visitClass\<close> ends with \<open>if (isNodeOpaque(node)) return\<close>, which has no effect on
  the result. \<open>visitMethod\<close>: reading \<open>forEach\<close> from an absent \<open>signatures\<close> raises a TypeError.
\<close>

definition visitMethod :: visitor where
  "visitMethod ext node doc st =
     (case doc of
        None \<Rightarrow> (Inr (), st)
      | Some d \<Rightarrow>
          if \<not> isMethodReflection ext node then (Inr (), st)
          else
            (let implementationName =
                   (case implementationOf node of
                      None \<Rightarrow> node_name node
                    | Some impl \<Rightarrow> if sig_name impl \<noteq> [] then sig_name impl else node_name node);
                 st1 = (case implementationOf node of
                          None \<Rightarrow> st
                        | Some impl \<Rightarrow> console_log (info ext (''Method '' @ implementationName)) st)
             in if isNodeInternal ext node then (Inr (), st1)
                else if isCallableNode ext node
                then (case signatures node of
                        None \<Rightarrow> (Inl (TypeError ''Cannot read property forEach of undefined''), st1)
                      | Some sigs \<Rightarrow> (Inr (), fold (\<lambda>sg. visitCallSignature ext sg d) sigs st1))
                else (Inr (), st1)))"

subsection \<open>Dispatch\<close>

text \<open>The own properties of the object literal \<open>visitors\<close>.\<close>

definition visitors :: "(string \<times> visitor) list" where
  "visitors =
     [(''Variable'', visitVariable),
      (''Module'', visitClass),
      (''Enumeration'', visitClass),
      (''Class'', visitClass),
      (''Interface'', visitClass),
      (''Function'', visitFunction),
      (''Property'', visitProperty),
      (''Method'', visitMethod),
      (''External module'', visitExternalModule),
      (''Type alias'', visitAlias),
      (''Object literal'', visitObjectLiteral)]"

text \<open>
  \<open>visitors\<close> is an object literal, so the property read \<open>this.visitors[kindString]\<close>
  finds, after the own properties, the properties that every object inherits from
  \<open>Object.prototype\<close>.
\<close>

definition Object_prototype_properties :: "string list" where
  "Object_prototype_properties =
     [''constructor'', ''__defineGetter__'', ''__defineSetter__'', ''hasOwnProperty'',
      ''__lookupGetter__'', ''__lookupSetter__'', ''isPrototypeOf'', ''propertyIsEnumerable'',
      ''toString'', ''valueOf'', ''__proto__'', ''toLocaleString'']"

datatype property = OwnProperty visitor | InheritedProperty string | NoProperty

definition get_visitor :: "string \<Rightarrow> property" where
  "get_visitor k =
     (case map_of visitors k of
        Some v \<Rightarrow> OwnProperty v
      | None \<Rightarrow> if k \<in> set Object_prototype_properties then InheritedProperty k
                else NoProperty)"

text \<open>
  \<open>visitor.apply(this, [node, doc])\<close> on an inherited property. The value of
  \<open>__proto__\<close> is the object \<open>Object.prototype\<close>, which has no \<open>apply\<close>;
  \<open>__defineGetter__\<close> and \<open>__defineSetter__\<close> reject their second argument \<open>doc\<close>,
  which is not a function; the other built-in functions return without an effect on
  the parser or on a document.
\<close>

definition apply_inherited :: "string \<Rightarrow> (unit, parser_state) action" where
  "apply_inherited k st =
     (if k = ''__proto__'' then (Inl (TypeError ''visitor.apply is not a function''), st)
      else if k = ''__defineGetter__''
      then (Inl (TypeError ''Object.prototype.__defineGetter__: Expecting function''), st)
      else if k = ''__defineSetter__''
      then (Inl (TypeError ''Object.prototype.__defineSetter__: Expecting function''), st)
      else (Inr (), st))"

definition visit :: "externals \<Rightarrow> NodeLike \<Rightarrow> doc_ref option \<Rightarrow> (unit, parser_state) action" where
  "visit ext node doc st =
     (case kindString node of
        None \<Rightarrow> (Inr (), st)
      | Some k \<Rightarrow>
          if k = [] then (Inr (), st)
          else
            (case get_visitor k of
               OwnProperty visitor \<Rightarrow> visitor ext node doc st
             | InheritedProperty p \<Rightarrow> apply_inherited p st
             | NoProperty \<Rightarrow> (Inr (), console_log (info ext (''TODO: '' @ k)) st)))"

subsection \<open>The walk\<close>

text \<open>
  \<open>documentForName\<close>: a name without an export, or an export without a document, gives
  null. (A name that is only an inherited property of \<open>indexExports\<close> yields a key
  that is no file name, and null as well.)
\<close>

definition documentForName :: "Parser \<Rightarrow> string \<Rightarrow> doc_ref option" where
  "documentForName this nm =
     (case indexExports (index this) nm of
        None \<Rightarrow> None
      | Some key \<Rightarrow> documents this key)"

text \<open>The document a node is visited with: the first statement of \<open>walk\<close>.\<close>

definition target_doc :: "externals \<Rightarrow> Parser \<Rightarrow> NodeLike \<Rightarrow> doc_ref option \<Rightarrow> doc_ref option" where
  "target_doc ext this node doc =
     (if isClassReflection ext node
      then (case documentForName this (node_name node) of
              None \<Rightarrow> doc
            | Some maybeDoc \<Rightarrow> Some maybeDoc)
      else doc)"

text \<open>
  \<open>walk\<close> and the \<open>forEach\<close> over the children. An error thrown by a visitor ends the
  walk. Both functions are total: the recursion descends into the tree.
\<close>

fun walk :: "externals \<Rightarrow> Parser \<Rightarrow> NodeLike \<Rightarrow> doc_ref option \<Rightarrow> (unit, parser_state) action"
and walk_forEach :: "externals \<Rightarrow> Parser \<Rightarrow> NodeLike list \<Rightarrow> doc_ref option \<Rightarrow> (unit, parser_state) action"
where
  "walk ext this (NodeLike nm kind chs cmt sigs impl) doc st =
     (let node = NodeLike nm kind chs cmt sigs impl;
          doc1 = target_doc ext this node doc
      in case visit ext node doc1 st of
           (Inl e, st1) \<Rightarrow> (Inl e, st1)
         | (Inr u, st1) \<Rightarrow>
             (case chs of
                None \<Rightarrow> (Inr (), st1)
              | Some cs \<Rightarrow> walk_forEach ext this cs doc1 st1))"
| "walk_forEach ext this [] doc st = (Inr (), st)"
| "walk_forEach ext this (c # cs) doc st =
     (case walk ext this c doc st of
        (Inl e, st1) \<Rightarrow> (Inl e, st1)
      | (Inr u, st1) \<Rightarrow> walk_forEach ext this cs doc st1)"

subsection \<open>Preorder\<close>

text \<open>
  The document a name maps to: the document stored under the file that the index gives
  for the name.
\<close>

definition document_of_name :: "Parser \<Rightarrow> string \<Rightarrow> doc_ref option" where
  "document_of_name this nm = Option.bind (indexExports (index this) nm) (documents this)"

text \<open>
  The preorder sequence of a tree, each node paired with the document it is visited
  with: the node itself, then the sequences of its children in the order in which the
  children appear. The document of a node is the one its name maps to when the node is a
  class reflection and its name maps to a document, and otherwise the document of its
  parent (for the root, the document the walk starts with).
\<close>

fun preorder :: "externals \<Rightarrow> Parser \<Rightarrow> NodeLike \<Rightarrow> doc_ref option \<Rightarrow> (NodeLike \<times> doc_ref option) list"
and preorder_list :: "externals \<Rightarrow> Parser \<Rightarrow> NodeLike list \<Rightarrow> doc_ref option \<Rightarrow> (NodeLike \<times> doc_ref option) list"
where
  "preorder ext this (NodeLike nm kind chs cmt sigs impl) doc =
     (let node = NodeLike nm kind chs cmt sigs impl;
          doc1 = (if isClassReflection ext node \<and> document_of_name this nm \<noteq> None
                  then document_of_name this nm else doc)
      in (node, doc1) # (case chs of None \<Rightarrow> [] | Some cs \<Rightarrow> preorder_list ext this cs doc1))"
| "preorder_list ext this [] doc = []"
| "preorder_list ext this (c # cs) doc = preorder ext this c doc @ preorder_list ext this cs doc"

text \<open>Visiting a sequence of nodes from left to right, up to the first error.\<close>

fun visit_all :: "externals \<Rightarrow> (NodeLike \<times> doc_ref option) list \<Rightarrow> (unit, parser_state) action" where
  "visit_all ext [] st = (Inr (), st)"
| "visit_all ext ((node, doc) # rest) st =
     (case visit ext node doc st of
        (Inl e, st1) \<Rightarrow> (Inl e, st1)
      | (Inr u, st1) \<Rightarrow> visit_all ext rest st1)"

subsection \<open>An example tree\<close>

text \<open>
  A parser with one document, for the class \<open>Browser\<close>, and a tree with a class, a
  function inside it and a node of a kind without a visitor.
\<close>

definition example_externals :: externals where
  "example_externals =
     \<lparr>isClassReflection = (\<lambda>n. kindString n = Some ''Class''),
      isMethodReflection = (\<lambda>n. kindString n = Some ''Method''),
      isNodeOpaque = (\<lambda>n. False),
      isNodeInternal = (\<lambda>n. False),
      isCallableNode = (\<lambda>n. signatures n \<noteq> None),
      fixReferences = (\<lambda>s. s),
      typeToString = (\<lambda>t. type_kind t),
      info = (\<lambda>s. s)\<rparr>"

definition example_parser :: Parser where
  "example_parser =
     \<lparr>documents = [''Browser.md'' \<mapsto> 0],
      index = \<lparr>indexMap = Map.empty, indexExports = [''Browser'' \<mapsto> ''Browser.md'']\<rparr>,
      referenceMap = Map.empty\<rparr>"

definition leaf :: "string \<Rightarrow> string \<Rightarrow> NodeLike" where
  "leaf nm kind = NodeLike nm (Some kind) None None None None"

definition example_tree :: NodeLike where
  "example_tree =
     NodeLike ''root'' None
       (Some [NodeLike ''Browser'' (Some ''Class'') (Some [leaf ''visit'' ''Function'']) None None None,
              leaf ''x'' ''Constructor''])
       None None None"

definition empty_state :: parser_state where
  "empty_state = \<lparr>store = (\<lambda>r. []), console = []\<rparr>"

section \<open>Settings: results\<close>

lemma normalize_waitTimeout_only:
  "normalize_waitTimeout settings = settings\<lparr>waitTimeout := waitTimeout (normalize_waitTimeout settings)\<rparr>"
  by (simp add: normalize_waitTimeout_def)

lemma normalizeSettings_waitTimeout:
  "waitTimeout (normalizeSettings settings) =
     (case waitTimeout settings of
        None \<Rightarrow> None
      | Some n \<Rightarrow> if js_gt n 1000 then Some (js_div n 1000)
                 else if n = Fin 0 then Some (Fin 30) else Some n)"
  by (simp add: normalizeSettings_def normalize_stepDelay_def normalize_actionDelay_def
      normalize_waitTimeout_def split: option.splits)

lemma normalizeSettings_stepDelay:
  "stepDelay (normalizeSettings settings) =
     (case stepDelay settings of
        None \<Rightarrow> None
      | Some n \<Rightarrow> if js_gt n 60 then Some (js_div n 1000) else Some n)"
  by (simp add: normalizeSettings_def normalize_stepDelay_def normalize_actionDelay_def
      normalize_waitTimeout_def split: option.splits)

lemma normalizeSettings_actionDelay:
  "actionDelay (normalizeSettings settings) =
     (if stepDelay settings = Some (Fin 0)
      then Some DEFAULT_STEP_WAIT_SECONDS
      else case actionDelay settings of
        None \<Rightarrow> None
      | Some n \<Rightarrow> if js_gt n 60 then Some (js_div n 1000)
                 else if n = Fin 0 then Some DEFAULT_ACTION_WAIT_SECONDS else Some n)"
  by (cases "stepDelay settings"; cases "actionDelay settings")
     (auto simp add: normalizeSettings_def normalize_stepDelay_def normalize_actionDelay_def
      normalize_waitTimeout_def)

text \<open>
  C1. A zero \<open>stepDelay\<close> is not replaced by its default: on the settings object
  \<open>{stepDelay: 0}\<close> the result still has \<open>stepDelay\<close> 0, and the default
  \<open>DEFAULT_STEP_WAIT_SECONDS\<close> (5) is stored in \<open>actionDelay\<close>, which was not set.
  On \<open>{actionDelay: 0, stepDelay: 0}\<close> the action delay ends as 5, not 0.5.
\<close>

theorem normalizeSettings_zero_stepDelay:
  "stepDelay (normalizeSettings (no_settings\<lparr>stepDelay := Some (Fin 0)\<rparr>)) = Some (Fin 0)
   \<and> actionDelay (normalizeSettings (no_settings\<lparr>stepDelay := Some (Fin 0)\<rparr>)) = Some (Fin 5)
   \<and> actionDelay (no_settings\<lparr>stepDelay := Some (Fin 0)\<rparr>) = None
   \<and> actionDelay (normalizeSettings
         (no_settings\<lparr>actionDelay := Some (Fin 0), stepDelay := Some (Fin 0)\<rparr>)) = Some (Fin 5)
   \<and> DEFAULT_ACTION_WAIT_SECONDS \<noteq> Fin 5"
  by (simp add: normalizeSettings_def normalize_stepDelay_def normalize_actionDelay_def
      normalize_waitTimeout_def no_settings_def DEFAULT_STEP_WAIT_SECONDS_def
      DEFAULT_ACTION_WAIT_SECONDS_def)

text \<open>
  C4. With a zero \<open>stepDelay\<close> the action delay is neither divided by 1000 nor left
  unchanged: on \<open>{actionDelay: 100000, stepDelay: 0}\<close> the result has \<open>actionDelay\<close>
  5, not 100, and on \<open>{actionDelay: 10, stepDelay: 0}\<close> it has 5, not 10.
\<close>

theorem normalizeSettings_actionDelay_overwritten:
  "actionDelay (normalizeSettings
      (no_settings\<lparr>actionDelay := Some (Fin 100000), stepDelay := Some (Fin 0)\<rparr>)) = Some (Fin 5)
   \<and> js_gt (Fin 100000) 60 \<and> js_div (Fin 100000) 1000 = Fin 100
   \<and> actionDelay (normalizeSettings
      (no_settings\<lparr>actionDelay := Some (Fin 10), stepDelay := Some (Fin 0)\<rparr>)) = Some (Fin 5)
   \<and> \<not> js_gt (Fin 10) 60 \<and> Fin 10 \<noteq> Fin 0"
  by (simp add: normalizeSettings_def normalize_stepDelay_def normalize_actionDelay_def
      normalize_waitTimeout_def no_settings_def DEFAULT_STEP_WAIT_SECONDS_def)

section \<open>ElementHandle: results\<close>

text \<open>
  The decorator calls the method body once: the browser state after the decorated call
  is the state after the body. A resolved result is passed through unchanged.
\<close>

lemma wrapDescriptiveError_resolves:
  "originalFn this args w = (Inr v, w') \<Longrightarrow>
   wrapDescriptiveError errorInterpreters propertyKey originalFn calltimeStack this args w = (Inr v, w')"
  by (simp add: wrapDescriptiveError_def)

lemma wrapDescriptiveError_state:
  "snd (wrapDescriptiveError errorInterpreters propertyKey originalFn calltimeStack this args w)
     = snd (originalFn this args w)"
  by (simp add: wrapDescriptiveError_def Let_def split: prod.splits sum.splits list.splits)

lemma wrapDescriptiveError_no_interpreter:
  "originalFn this args w = (Inl e, w') \<Longrightarrow>
   wrapDescriptiveError [] propertyKey originalFn calltimeStack this args w
     = (Inl (TypeError ''errorInterpreters[0] is not a function''), w')"
  by (simp add: wrapDescriptiveError_def)

lemma wrapDescriptiveError_interpreter:
  "originalFn this args w = (Inl e, w') \<Longrightarrow>
   wrapDescriptiveError (interpreter # rest) propertyKey originalFn calltimeStack this args w
     = (Inl (Documented (set_stack
          (interpreter e this propertyKey (toErrorString this @ ''.'' @ propertyKey) args)
          calltimeStack)), w')"
  by (simp add: wrapDescriptiveError_def)

text \<open>
  C2. A decorated method whose decorator was given no interpreter does not rewrap: when
  the underlying \<open>focus\<close> of the handle rejects with the library's error, the method
  \<open>focus\<close> rejects with the TypeError raised by calling \<open>errorInterpreters[0]\<close>,
  which carries neither a contextual message nor the original error.
\<close>

theorem focus_rejection_not_rewrapped:
  "p_focus (element detached_handle) 0 = (Inl (Error ''Node is detached from document''), 1)
   \<and> focus ''stack'' detached_handle () 0
       = (Inl (TypeError ''errorInterpreters[0] is not a function''), 1)"
  by (simp add: focus_def wrapDescriptiveError_def detached_handle_def detached_checkbox_def
      detached_error_def)



text \<open>
  C7. \<open>ElementHandle\<close> is the identity locator: for every context and node argument
  \<open>find\<close> resolves to the handle itself, never to null, and \<open>findMany\<close> resolves
  to the list whose only member is that handle.
\<close>

theorem find_identity:
  "find_eh context node this w = (Inr (Some this), w)
   \<and> findMany context node this w = (Inr [this], w)"
  by (simp add: find_eh_def findMany_def)

text \<open>
  C8, as stated, fails where the awaited read of the tag name rejects: on a handle whose
  page has been closed \<open>isSelected\<close> rejects with the library's error and does not
  resolve to true.
\<close>

theorem isSelected_closed_handle:
  "isSelected closed_handle 0 = Inl closed_error \<and> isSelected closed_handle 0 \<noteq> Inr True"
  by (simp add: isSelected_def tagName_def getProperty_def closed_handle_def closed_element_def)

text \<open>
  C8, amended. \<open>isSelected\<close> resolves to true whenever its awaited read of the tag
  name resolves, whatever the tag name and whatever the selected or checked state; when
  that read rejects, \<open>isSelected\<close> rejects with the read's error. It has no other
  outcome, so the error \<open>Element is not selectable\<close> of the guard is never thrown.
\<close>

theorem isSelected_result:
  "isSelected this w = (case tagName this w of Inl e \<Rightarrow> Inl e | Inr tn \<Rightarrow> Inr True)"
  by (simp add: isSelected_def Let_def split: sum.splits)



text \<open>
  C10. Whenever the underlying handle's \<open>boundingBox\<close> resolves to null,
  \<open>isDisplayed\<close> resolves to false, \<open>size\<close> to \<open>{width: 0, height: 0}\<close> and
  \<open>location\<close> to \<open>{x: 0, y: 0}\<close>; none of them rejects.
\<close>

theorem null_boundingBox:
  assumes "p_boundingBox (element this) w = Inr None"
  shows "isDisplayed this w = Inr False
    \<and> size_eh this w = Inr \<lparr>width = Fin 0, height = Fin 0\<rparr>
    \<and> location this w = Inr \<lparr>loc_x = Fin 0, loc_y = Fin 0\<rparr>"
  using assms by (simp add: isDisplayed_def size_eh_def location_def)

text \<open>
  The detached checkbox has no bounding box.
\<close>

theorem null_boundingBox_witness:
  "p_boundingBox (element detached_handle) 0 = Inr None
    \<and> isDisplayed detached_handle 0 = Inr False
    \<and> size_eh detached_handle 0 = Inr \<lparr>width = Fin 0, height = Fin 0\<rparr>
    \<and> location detached_handle 0 = Inr \<lparr>loc_x = Fin 0, loc_y = Fin 0\<rparr>"
proof -
  have h: "p_boundingBox (element detached_handle) 0 = Inr None"
    by (simp add: detached_handle_def detached_checkbox_def)
  from h null_boundingBox [OF h] show ?thesis by simp
qed


section \<open>Parser: results\<close>

lemma visit_all_append:
  "visit_all ext (xs @ ys) st =
     (case visit_all ext xs st of
        (Inl e, st1) \<Rightarrow> (Inl e, st1)
      | (Inr u, st1) \<Rightarrow> visit_all ext ys st1)"
proof (induction xs arbitrary: st)
  case Nil
  show ?case by simp
next
  case (Cons x xs)
  obtain node doc where x: "x = (node, doc)" by (cases x)
  show ?case
    by (simp add: x Cons.IH split: prod.splits sum.splits)
qed

text \<open>
  The first statement of \<open>walk\<close> switches the document exactly when the node is a
  class reflection whose name maps to a document.
\<close>

lemma target_doc_switch:
  "target_doc ext this node doc =
     (if isClassReflection ext node \<and> document_of_name this (node_name node) \<noteq> None
      then document_of_name this (node_name node) else doc)"
  by (auto simp add: target_doc_def documentForName_def document_of_name_def
      split: option.splits)

lemma preorder_target_doc:
  "preorder ext this (NodeLike nm kind chs cmt sigs impl) doc =
     (NodeLike nm kind chs cmt sigs impl,
      target_doc ext this (NodeLike nm kind chs cmt sigs impl) doc)
     # (case chs of
          None \<Rightarrow> []
        | Some cs \<Rightarrow>
            preorder_list ext this cs
              (target_doc ext this (NodeLike nm kind chs cmt sigs impl) doc))"
  by (cases chs) (auto simp add: Let_def target_doc_switch)

lemma walk_and_forEach_preorder:
  "walk ext this node doc st = visit_all ext (preorder ext this node doc) st"
  "walk_forEach ext this nodes doc st = visit_all ext (preorder_list ext this nodes doc) st"
proof (induction ext this node doc st and ext this nodes doc st rule: walk_walk_forEach.induct)
  case (1 ext this nm kind chs cmt sigs impl doc st)
  then show ?case
    by (simp add: Let_def preorder_target_doc del: preorder.simps
        split: prod.splits sum.splits option.splits)
next
  case (2 ext this doc st)
  show ?case by simp
next
  case (3 ext this c cs doc st)
  then show ?case
    by (simp add: visit_all_append split: prod.splits sum.splits)
qed

text \<open>
  A node without a kind, with the empty kind, or with a kind that is no property of
  \<open>visitors\<close> at all, own or inherited, is visited without an error and without a call
  on any document.
\<close>

lemma visit_without_visitor:
  assumes "kindString node = None \<or> kindString node = Some []
           \<or> (\<exists>k. kindString node = Some k \<and> get_visitor k = NoProperty)"
  shows "fst (visit ext node doc st) = Inr () \<and> store (snd (visit ext node doc st)) = store st"
  using assms by (auto simp add: visit_def console_log_def)

text \<open>
  C5. The kind \<open>__proto__\<close> is none of the eleven entries of \<open>visitors\<close>, and visiting a
  node of that kind fails: the property read yields \<open>Object.prototype\<close>, and calling
  its \<open>apply\<close> raises a TypeError.
\<close>

theorem visit_proto_kind_fails:
  "map_of visitors ''__proto__'' = None
   \<and> visit ext (NodeLike ''x'' (Some ''__proto__'') None None None None) doc st
       = (Inl (TypeError ''visitor.apply is not a function''), st)"
  by (simp add: visit_def get_visitor_def visitors_def Object_prototype_properties_def
      apply_inherited_def)

text \<open>
  As long as no visitor throws, \<open>walk\<close> is a preorder traversal: on every tree, every
  starting document and every state it does what visiting the nodes of the preorder
  sequence from left to right does, up to the first error. \<open>walk\<close> is a total function
  on the finite trees, so it terminates on each of them.
\<close>

lemma walk_visits_preorder:
  "walk ext this node doc st = visit_all ext (preorder ext this node doc) st"
  by (rule walk_and_forEach_preorder)

text \<open>
  C6. \<open>walk\<close> does not visit every node of every tree. On the root with the children
  \<open>a\<close> (a function), \<open>b\<close> (of kind \<open>__proto__\<close>) and any third child \<open>c\<close>, the
  visit of \<open>b\<close> throws, the error leaves \<open>walk\<close>, and \<open>c\<close> is never walked: the
  result is the TypeError and the state after the visits of the root and of \<open>a\<close>,
  whatever \<open>c\<close> is, although the preorder sequence of the tree goes on to \<open>c\<close>.
\<close>

theorem walk_stops_at_proto_kind:
  "walk ext this
     (NodeLike ''root'' None (Some [leaf ''a'' ''Function'', leaf ''b'' ''__proto__'', c])
        None None None)
     doc st
   = (Inl (TypeError ''visitor.apply is not a function''),
      console_log (info ext ''Function a'') st)
   \<and> map (\<lambda>(node, d). node_name node)
        (preorder ext this
          (NodeLike ''root'' None
            (Some [leaf ''a'' ''Function'', leaf ''b'' ''__proto__'', leaf ''c'' ''Function''])
            None None None) doc)
     = [''root'', ''a'', ''b'', ''c'']"
  by (simp add: leaf_def Let_def visit_def get_visitor_def visitors_def
      Object_prototype_properties_def apply_inherited_def visitFunction_def)

text \<open>
  On the example tree the class switches the document for itself and for the function
  below it, and the sibling after the class is visited with the document of the root.
\<close>

lemma preorder_example:
  "preorder example_externals example_parser example_tree None =
     [(example_tree, None),
      (NodeLike ''Browser'' (Some ''Class'') (Some [leaf ''visit'' ''Function'']) None None None, Some 0),
      (leaf ''visit'' ''Function'', Some 0),
      (leaf ''x'' ''Constructor'', None)]"
  by (simp add: example_tree_def leaf_def document_of_name_def example_externals_def
      example_parser_def Let_def)

lemma walk_example:
  "fst (walk example_externals example_parser example_tree None empty_state) = Inr ()
   \<and> console (snd (walk example_externals example_parser example_tree None empty_state))
       = [''visit Class: Browser'', ''Function visit'', ''TODO: Constructor'']
   \<and> store (snd (walk example_externals example_parser example_tree None empty_state)) 0
       = [Section ''Browser'']"
  by (simp add: example_tree_def leaf_def target_doc_def example_externals_def
      documentForName_def example_parser_def empty_state_def visit_def get_visitor_def
      visitors_def Object_prototype_properties_def visitClass_def visitFunction_def
      console_log_def doc_call_def writeComment_def comment_if_truthy_def Let_def)

end
